theory Spec2Isabelle
  imports Main "HOL-Library.Word"
begin

section \<open>Shared data: JSON values, strings, tool definitions\<close>

text \<open>
  Go's \<open>map[string]any\<close> and \<open>json.RawMessage\<close> payloads are kept as a small JSON tree.
\<close>

datatype json =
    JNull
  | JBool bool
  | JNum int
  | JStr string
  | JArr "json list"
  | JObj "(string \<times> json) list"

text \<open>\<open>pkg/mcp\<close>: the tool definition a server returns from \<open>tools/list\<close>.\<close>

record MCPToolDefinition =
  def_Name :: string
  def_Description :: string
  def_InputSchema :: json




section \<open>The MCP client interface and the manager (\<open>pkg/mcp\<close>)\<close>

text \<open>
  A \<open>Client\<close> is one of the three transports. The value records the constructor call
  that made it; what the remote side answers is the environment \<open>mcp_env\<close>.
\<close>

type_synonym headers = "(string \<times> string) list"

datatype Client =
    StdioClient string "string list" "string list"
  | SSEClient string headers
  | HTTPClient string headers

record ServerConfig =
  cfg_Name :: string
  cfg_Type :: string
  cfg_URL :: string
  cfg_Headers :: headers
  cfg_Cmd :: string
  cfg_Args :: "string list"
  cfg_Env :: "string list"

text \<open>
  The outside world as the manager sees it: whether a constructor fails (\<open>None\<close> is
  success, \<open>Some e\<close> the error text), what \<open>Initialize\<close> returns and what
  \<open>ListTools\<close> returns. \<open>NewHTTPClient\<close> cannot fail.
\<close>

record mcp_env =
  connect_err :: "Client \<Rightarrow> string option"
  Initialize :: "Client \<Rightarrow> string option"
  ListTools :: "Client \<Rightarrow> string + MCPToolDefinition list"

record MCPToolAdapter =
  client :: Client
  originalName :: string
  adapter_definition :: MCPToolDefinition

definition NewMCPToolAdapter :: "Client \<Rightarrow> MCPToolDefinition \<Rightarrow> string \<Rightarrow> MCPToolAdapter" where
  "NewMCPToolAdapter c d orig = \<lparr>client = c, originalName = orig, adapter_definition = d\<rparr>"



definition Description :: "MCPToolAdapter \<Rightarrow> string" where
  "Description a = def_Description (adapter_definition a)"

definition Parameters :: "MCPToolAdapter \<Rightarrow> json" where
  "Parameters a = def_InputSchema (adapter_definition a)"



text \<open>
  What a call of \<open>StartAndRegister\<close> does to the outside world, in order: the
  constructor it runs, the handshake calls, and \<open>Close\<close>.
\<close>

datatype event =
    EvNew Client
  | EvInitialize Client
  | EvListTools Client
  | EvClose Client

text \<open>
  The manager: the registry it registers into and its map of live clients.
  \<open>tools.ToolRegistry\<close> is not part of these sources, so the registry is a type
  parameter and \<open>Register\<close> a parameter of \<open>StartAndRegister\<close>.
\<close>

record 'r Manager =
  registry :: 'r
  clients :: "string \<rightharpoonup> Client"

text \<open>The registration loop over \<open>toolsList.Tools\<close>.\<close>

definition adapterFor :: "string \<Rightarrow> Client \<Rightarrow> MCPToolDefinition \<Rightarrow> MCPToolAdapter" where
  "adapterFor alias c tDef =
     (let originalName = def_Name tDef;
          tDef' = tDef\<lparr>def_Name := alias @ ''_'' @ originalName\<rparr>
      in NewMCPToolAdapter c tDef' originalName)"

fun registerTools ::
  "(MCPToolAdapter \<Rightarrow> 'r \<Rightarrow> 'r) \<Rightarrow> string \<Rightarrow> Client \<Rightarrow> MCPToolDefinition list \<Rightarrow> 'r \<Rightarrow> 'r" where
  "registerTools Register alias c [] r = r"
| "registerTools Register alias c (tDef # rest) r =
     registerTools Register alias c rest (Register (adapterFor alias c tDef) r)"

text \<open>The three-way choice of constructor on \<open>cfg.Type\<close>.\<close>

definition newClient :: "ServerConfig \<Rightarrow> Client" where
  "newClient cfg =
     (if cfg_Type cfg = ''sse'' then SSEClient (cfg_URL cfg) (cfg_Headers cfg)
      else if cfg_Type cfg = ''http'' then HTTPClient (cfg_URL cfg) (cfg_Headers cfg)
      else StdioClient (cfg_Cmd cfg) (cfg_Args cfg) (cfg_Env cfg))"

definition newClient_err :: "mcp_env \<Rightarrow> Client \<Rightarrow> string option" where
  "newClient_err env c = (case c of HTTPClient u h \<Rightarrow> None | _ \<Rightarrow> connect_err env c)"

text \<open>
  \<open>StartAndRegister\<close> returns the error (\<open>None\<close> for \<open>nil\<close>), the manager afterwards
  and the calls it made.
\<close>

definition StartAndRegister ::
  "mcp_env \<Rightarrow> (MCPToolAdapter \<Rightarrow> 'r \<Rightarrow> 'r) \<Rightarrow> ServerConfig \<Rightarrow> 'r Manager
     \<Rightarrow> string option \<times> 'r Manager \<times> event list" where
  "StartAndRegister env Register cfg m =
     (if clients m (cfg_Name cfg) \<noteq> None then
        (Some (''mcp server '' @ cfg_Name cfg @ '' is already running''), m, [])
      else
        let c = newClient cfg in
        case newClient_err env c of
          Some err \<Rightarrow> (Some (''failed to connect to '' @ cfg_Name cfg @ '': '' @ err), m, [EvNew c])
        | None \<Rightarrow>
            (case Initialize env c of
               Some err \<Rightarrow>
                 (Some (''mcp initialization failed for '' @ cfg_Name cfg @ '': '' @ err), m,
                  [EvNew c, EvInitialize c, EvClose c])
             | None \<Rightarrow>
                 (case ListTools env c of
                    Inl err \<Rightarrow>
                      (Some (''failed to list tools from '' @ cfg_Name cfg @ '': '' @ err), m,
                       [EvNew c, EvInitialize c, EvListTools c, EvClose c])
                  | Inr toolsList \<Rightarrow>
                      (None,
                       m\<lparr>registry := registerTools Register (cfg_Name cfg) c toolsList (registry m),
                         clients := (clients m)(cfg_Name cfg \<mapsto> c)\<rparr>,
                       [EvNew c, EvInitialize c, EvListTools c]))))"


section \<open>Strings: formatting and the \<open>strings\<close> helpers the code calls\<close>

text \<open>\<open>fmt.Sprintf("%d", n)\<close>: decimal digits, with a minus sign for a negative number.\<close>

definition digit_char :: "nat \<Rightarrow> char" where
  "digit_char d = ''0123456789'' ! d"

fun dec_nat :: "nat \<Rightarrow> string" where
  "dec_nat n = (if n < 10 then [digit_char n] else dec_nat (n div 10) @ [digit_char (n mod 10)])"

declare dec_nat.simps [simp del]

definition fmt_d :: "int \<Rightarrow> string" where
  "fmt_d i = (if i < 0 then CHR ''-'' # dec_nat (nat (- i)) else dec_nat (nat i))"

text \<open>\<open>strings.HasPrefix\<close>, \<open>strings.TrimPrefix\<close> and \<open>strings.Contains\<close>.\<close>

definition HasPrefix :: "string \<Rightarrow> string \<Rightarrow> bool" where
  "HasPrefix s p = (take (length p) s = p)"

definition TrimPrefix :: "string \<Rightarrow> string \<Rightarrow> string" where
  "TrimPrefix s p = (if HasPrefix s p then drop (length p) s else s)"

fun Contains :: "string \<Rightarrow> string \<Rightarrow> bool" where
  "Contains [] sub = (sub = [])"
| "Contains (c # cs) sub = (HasPrefix (c # cs) sub \<or> Contains cs sub)"

text \<open>
  \<open>strings.TrimSpace\<close> removes leading and trailing white space (for the ASCII range:
  tab, line feed, vertical tab, form feed, carriage return and space);
  \<open>strings.TrimRight(s, "\r")\<close> removes trailing carriage returns.
\<close>

definition isSpace :: "char \<Rightarrow> bool" where
  "isSpace c = (c \<in> set [CHR 0x09, CHR 0x0A, CHR 0x0B, CHR 0x0C, CHR 0x0D, CHR 0x20])"

definition TrimSpace :: "string \<Rightarrow> string" where
  "TrimSpace s = rev (dropWhile isSpace (rev (dropWhile isSpace s)))"

definition TrimRight_CR :: "string \<Rightarrow> string" where
  "TrimRight_CR s = rev (dropWhile (\<lambda>c. c = CHR 0x0D) (rev s))"

section \<open>JSON-RPC framing and the pending table (\<open>pkg/mcp\<close>)\<close>

record JSONRPCError =
  err_Code :: int
  err_Message :: string

record JSONRPCMessage =
  msg_JSONRPC :: string
  msg_ID :: "string option"
  msg_Method :: string
  msg_Params :: "json option"
  msg_Result :: "json option"
  msg_Error :: "JSONRPCError option"

text \<open>
  A response channel \<open>make(chan *JSONRPCMessage, 1)\<close>: empty (\<open>None\<close>) or holding the one
  message it has room for. The fields the stdio and the SSE client share: the id
  counter (\<open>uint64\<close>, so it wraps), the pending table, and whether the client's own
  context has been cancelled. \<open>reading\<close> is not a field of the Go struct: it says
  whether the background \<open>readLoop\<close> goroutine is still running.
\<close>

type_synonym chan = "JSONRPCMessage option"

record rpc_client =
  nextID :: "64 word"
  pending :: "string \<rightharpoonup> chan"
  ctx_done :: bool
  reading :: bool

text \<open>What a call may return: a Go function that returns, or one blocked for ever.\<close>

datatype 'a outcome = Returns 'a | Blocks

datatype 'a run = Done 'a | Stuck 'a

text \<open>
  The id of the next request: \<open>fmt.Sprintf("%d", atomic.AddUint64(&c.nextID, 1))\<close>.
\<close>

definition next_id :: "'a rpc_client_scheme \<Rightarrow> string" where
  "next_id c = dec_nat (unat (nextID c + 1))"

definition install :: "string \<Rightarrow> 'a rpc_client_scheme \<Rightarrow> 'a rpc_client_scheme" where
  "install rid c = c\<lparr>pending := (pending c)(rid \<mapsto> None)\<rparr>"

definition remove :: "string \<Rightarrow> 'a rpc_client_scheme \<Rightarrow> 'a rpc_client_scheme" where
  "remove rid c = c\<lparr>pending := (pending c)(rid := None)\<rparr>"

text \<open>
  Routing one decoded message, as both read loops do: a message with an id goes into
  the channel the pending table has for that id; one for an unknown id is dropped; one
  without an id is a notification and is dropped. The send \<open>ch <- &msg\<close> blocks while the
  channel is full: that is \<open>None\<close>.
\<close>

definition route :: "JSONRPCMessage \<Rightarrow> 'a rpc_client_scheme \<Rightarrow> 'a rpc_client_scheme option" where
  "route msg c =
     (case msg_ID msg of
        None \<Rightarrow> Some c
      | Some rid \<Rightarrow>
          (case pending c rid of
             None \<Rightarrow> Some c
           | Some None \<Rightarrow> Some (c\<lparr>pending := (pending c)(rid \<mapsto> Some msg)\<rparr>)
           | Some (Some queued) \<Rightarrow> None))"

text \<open>
  The \<open>select\<close> at the end of \<open>sendRequest\<close>. A case is ready when its channel is: the
  caller's context is done, the client's context is done, or the response channel
  holds a message. Go picks any ready case; with none ready the call blocks.
\<close>

datatype select_case = CtxDone | ClientDone | Response JSONRPCMessage

definition ready_cases :: "bool \<Rightarrow> 'a rpc_client_scheme \<Rightarrow> string \<Rightarrow> select_case list" where
  "ready_cases caller_done c rid =
     (if caller_done then [CtxDone] else [])
     @ (if ctx_done c then [ClientDone] else [])
     @ (case pending c rid of Some (Some msg) \<Rightarrow> [Response msg] | _ \<Rightarrow> [])"

definition rpc_error_text :: "JSONRPCError \<Rightarrow> string" where
  "rpc_error_text e = ''rpc error '' @ fmt_d (err_Code e) @ '': '' @ err_Message e"

text \<open>
  What one call of \<open>sendRequest\<close> meets: whether marshalling fails, whether the
  transport accepts the request, the caller's context (done or not, and its
  \<open>ctx.Err()\<close> text), what the other goroutines do while the call waits (the lines the
  reader gets, whether the stream then ends, whether \<open>Close\<close> is called), and which
  ready case the \<open>select\<close> picks.
\<close>

datatype stream_end = EOF | StillOpen

record call_env =
  marshal_params_err :: "string option"
  marshal_req_err :: "string option"
  transport_err :: "string option"
  caller_done :: bool
  caller_err :: string
  incoming :: "string list"
  incoming_end :: stream_end
  close_called :: bool
  pick :: nat

section \<open>The stdio client (\<open>pkg/mcp\<close>)\<close>

text \<open>
  \<open>stdin\<close> is what has been written to the child's standard input, one request per
  frame. \<open>json.Unmarshal\<close> of a line is the parameter \<open>decode\<close> of the read loop.
\<close>

record stdio_client = rpc_client +
  stdin :: "JSONRPCMessage list"

definition NewStdioClient_state :: stdio_client where
  "NewStdioClient_state =
     \<lparr>nextID = 0, pending = Map.empty, ctx_done = False, reading = True, stdin = []\<rparr>"

definition cancel :: "'a rpc_client_scheme \<Rightarrow> 'a rpc_client_scheme" where
  "cancel c = c\<lparr>ctx_done := True\<rparr>"

text \<open>One iteration of the loop \<open>for scanner.Scan()\<close> of \<open>StdioClient.readLoop\<close>.\<close>

definition stdio_line ::
  "(string \<Rightarrow> JSONRPCMessage option) \<Rightarrow> string \<Rightarrow> stdio_client \<Rightarrow> stdio_client option" where
  "stdio_line decode line c =
     (case decode line of
        None \<Rightarrow> Some c
      | Some msg \<Rightarrow> route msg c)"

text \<open>
  \<open>StdioClient.readLoop\<close> over the lines the child writes. When stdout ends the loop
  exits and the deferred \<open>c.cancel()\<close> runs. A stream that stays open leaves the reader
  waiting in \<open>Scan\<close>; a send into a full channel leaves it stuck there.
\<close>

fun StdioClient_readLoop ::
  "(string \<Rightarrow> JSONRPCMessage option) \<Rightarrow> string list \<Rightarrow> stream_end \<Rightarrow> stdio_client
     \<Rightarrow> stdio_client run" where
  "StdioClient_readLoop decode [] EOF c = Done (cancel (c\<lparr>reading := False\<rparr>))"
| "StdioClient_readLoop decode [] StillOpen c = Stuck c"
| "StdioClient_readLoop decode (line # rest) e c =
     (case stdio_line decode line c of
        None \<Rightarrow> Stuck c
      | Some c' \<Rightarrow> StdioClient_readLoop decode rest e c')"

definition run_state :: "'a run \<Rightarrow> 'a" where
  "run_state r = (case r of Done c \<Rightarrow> c | Stuck c \<Rightarrow> c)"

text \<open>
  What happens to the client while a request waits in its \<open>select\<close>: the reader, if it is
  still running, handles the incoming lines, and \<open>Close\<close> may cancel the client.
\<close>

definition stdio_meanwhile ::
  "(string \<Rightarrow> JSONRPCMessage option) \<Rightarrow> call_env \<Rightarrow> stdio_client \<Rightarrow> stdio_client" where
  "stdio_meanwhile decode env c =
     (let c1 = (if reading c
                then run_state (StdioClient_readLoop decode (incoming env) (incoming_end env) c)
                else c)
      in if close_called env then cancel c1 else c1)"

definition select_result :: "'e call_env_scheme \<Rightarrow> select_case \<Rightarrow> string \<Rightarrow> string + JSONRPCMessage" where
  "select_result env sc closed_text =
     (case sc of
        CtxDone \<Rightarrow> Inl (caller_err env)
      | ClientDone \<Rightarrow> Inl closed_text
      | Response resp \<Rightarrow>
          (case msg_Error resp of
             Some e \<Rightarrow> Inl (rpc_error_text e)
           | None \<Rightarrow> Inr resp))"

text \<open>
  The wait of \<open>sendRequest\<close> and the deferred \<open>delete(c.pending, id)\<close> that runs when it
  returns.
\<close>

definition await ::
  "'e call_env_scheme \<Rightarrow> string \<Rightarrow> string \<Rightarrow> 'a rpc_client_scheme
     \<Rightarrow> (string + JSONRPCMessage) outcome \<times> 'a rpc_client_scheme" where
  "await env closed_text rid c =
     (case ready_cases (caller_done env) c rid of
        [] \<Rightarrow> (Blocks, c)
      | sc # scs \<Rightarrow>
          (Returns (select_result env ((sc # scs) ! (pick env mod length (sc # scs))) closed_text),
           remove rid c))"

definition StdioClient_sendRequest ::
  "(string \<Rightarrow> JSONRPCMessage option) \<Rightarrow> call_env \<Rightarrow> string \<Rightarrow> json \<Rightarrow> stdio_client
     \<Rightarrow> (string + JSONRPCMessage) outcome \<times> stdio_client" where
  "StdioClient_sendRequest decode env method params c0 =
     (let c = c0\<lparr>nextID := nextID c0 + 1\<rparr>;
          rid = dec_nat (unat (nextID c))
      in case marshal_params_err env of
           Some e \<Rightarrow> (Returns (Inl e), c)
         | None \<Rightarrow>
             let req = \<lparr>msg_JSONRPC = ''2.0'', msg_ID = Some rid, msg_Method = method,
                        msg_Params = Some params, msg_Result = None, msg_Error = None\<rparr>
             in case marshal_req_err env of
                  Some e \<Rightarrow> (Returns (Inl e), c)
                | None \<Rightarrow>
                    let c1 = install rid c
                    in case transport_err env of
                         Some e \<Rightarrow> (Returns (Inl (''failed to write request: '' @ e)), remove rid c1)
                       | None \<Rightarrow>
                           let c2 = c1\<lparr>stdin := stdin c1 @ [req]\<rparr>
                           in await env ''client closed while waiting for response'' rid
                                (stdio_meanwhile decode env c2))"


section \<open>The SSE client (\<open>pkg/mcp\<close>)\<close>

text \<open>
  \<open>postReady\<close> is the channel \<open>chan struct{}\<close>: \<open>True\<close> once it has been closed. \<open>posts\<close> is
  what \<open>httpClient.Do\<close> has been asked to POST: the URL and the request. \<open>currentEvent\<close>
  and \<open>dataBuffer\<close> are the local variables of \<open>readLoop\<close>, kept here so that the loop can
  be run a few lines at a time.
\<close>

record sse_client = rpc_client +
  sseURL :: string
  postURL :: string
  postReady :: bool
  posts :: "(string \<times> JSONRPCMessage) list"
  currentEvent :: string
  dataBuffer :: string

record http_response =
  StatusCode :: int
  ContentType :: string
  Body :: string

text \<open>
  \<open>resolvePostURL\<close>. The parameter \<open>resolve base ref\<close> stands for \<open>net/url\<close>: \<open>None\<close> when
  \<open>url.Parse(ref)\<close> fails, else \<open>base.ResolveReference(ref).String()\<close>.
\<close>

definition resolvePostURL :: "(string \<Rightarrow> string \<Rightarrow> string option) \<Rightarrow> string \<Rightarrow> sse_client \<Rightarrow> sse_client" where
  "resolvePostURL resolve endpointPath c =
     (case resolve (sseURL c) endpointPath of
        Some u \<Rightarrow> c\<lparr>postURL := u\<rparr>
      | None \<Rightarrow> c\<lparr>postURL := endpointPath\<rparr>)"

definition handleMessage ::
  "(string \<Rightarrow> JSONRPCMessage option) \<Rightarrow> string \<Rightarrow> sse_client \<Rightarrow> sse_client option" where
  "handleMessage decode data c =
     (case decode data of
        None \<Rightarrow> Some c
      | Some msg \<Rightarrow> route msg c)"

text \<open>One iteration of the loop \<open>for scanner.Scan()\<close> of \<open>SSEClient.readLoop\<close>.\<close>

definition sse_line ::
  "(string \<Rightarrow> string \<Rightarrow> string option) \<Rightarrow> (string \<Rightarrow> JSONRPCMessage option) \<Rightarrow> string
     \<Rightarrow> sse_client \<Rightarrow> sse_client option" where
  "sse_line resolve decode raw c =
     (let line = TrimRight_CR raw in
      if line = [] then
        (let handled =
               (if currentEvent c = ''endpoint''
                then Some ((resolvePostURL resolve (dataBuffer c) c)\<lparr>postReady := True\<rparr>)
                else if dataBuffer c \<noteq> [] \<and> currentEvent c \<noteq> ''endpoint''
                then handleMessage decode (dataBuffer c) c
                else Some c)
         in case handled of
              None \<Rightarrow> None
            | Some c' \<Rightarrow> Some (c'\<lparr>currentEvent := [], dataBuffer := []\<rparr>))
      else if HasPrefix line ''event:''
      then Some (c\<lparr>currentEvent := TrimSpace (TrimPrefix line ''event:'')\<rparr>)
      else if HasPrefix line ''data:''
      then Some (c\<lparr>dataBuffer := dataBuffer c @ TrimSpace (TrimPrefix line ''data:'')\<rparr>)
      else Some c)"

fun SSEClient_readLoop ::
  "(string \<Rightarrow> string \<Rightarrow> string option) \<Rightarrow> (string \<Rightarrow> JSONRPCMessage option) \<Rightarrow> string list
     \<Rightarrow> stream_end \<Rightarrow> sse_client \<Rightarrow> sse_client run" where
  "SSEClient_readLoop resolve decode [] EOF c = Done (cancel (c\<lparr>reading := False\<rparr>))"
| "SSEClient_readLoop resolve decode [] StillOpen c = Stuck c"
| "SSEClient_readLoop resolve decode (line # rest) e c =
     (case sse_line resolve decode line c of
        None \<Rightarrow> Stuck c
      | Some c' \<Rightarrow> SSEClient_readLoop resolve decode rest e c')"

text \<open>
  What \<open>NewSSEClient\<close> meets: whether building the GET request fails, what the GET
  returns, whether the caller's context is already done when the \<open>select\<close> is reached,
  and, should the \<open>select\<close> have to wait, the lines the reader handles within the 15
  seconds, whether the stream ends within them, whether the caller's context is done
  within them, and which ready case is picked.
\<close>

record sse_env =
  new_request_err :: "string option"
  get_result :: "string + http_response"
  ctx_done_at_select :: bool
  first_lines :: "string list"
  first_end :: stream_end
  ctx_done_while_waiting :: bool
  handshake_pick :: nat

datatype handshake_case = PostReady | Timeout | CallerDone

definition handshake_ready :: "bool \<Rightarrow> sse_client \<Rightarrow> handshake_case list" where
  "handshake_ready caller c =
     (if postReady c then [PostReady] else []) @ (if caller then [CallerDone] else [])"

text \<open>
  The \<open>select\<close> of \<open>NewSSEClient\<close> over \<open>c.postReady\<close>, \<open>time.After(15 * time.Second)\<close> and
  \<open>ctx.Done()\<close>. A case that is ready when the \<open>select\<close> is reached is taken at once;
  otherwise the call waits while the reader runs, and the timer fires when nothing else
  has become ready.
\<close>

definition handshake_select ::
  "(string \<Rightarrow> string \<Rightarrow> string option) \<Rightarrow> (string \<Rightarrow> JSONRPCMessage option) \<Rightarrow> sse_env
     \<Rightarrow> sse_client \<Rightarrow> handshake_case \<times> sse_client" where
  "handshake_select resolve decode env c =
     (case handshake_ready (ctx_done_at_select env) c of
        hc # hcs \<Rightarrow> ((hc # hcs) ! (handshake_pick env mod length (hc # hcs)), c)
      | [] \<Rightarrow>
          (let c' = run_state (SSEClient_readLoop resolve decode (first_lines env) (first_end env) c)
           in case handshake_ready (ctx_done_while_waiting env) c' of
                [] \<Rightarrow> (Timeout, c')
              | hc # hcs \<Rightarrow> ((hc # hcs) ! (handshake_pick env mod length (hc # hcs)), c')))"

definition NewSSEClient ::
  "(string \<Rightarrow> string \<Rightarrow> string option) \<Rightarrow> (string \<Rightarrow> JSONRPCMessage option) \<Rightarrow> sse_env
     \<Rightarrow> string \<Rightarrow> string + sse_client" where
  "NewSSEClient resolve decode env sseEndpoint =
     (let c = \<lparr>nextID = 0, pending = Map.empty, ctx_done = False, reading = False,
               sseURL = sseEndpoint, postURL = sseEndpoint, postReady = False, posts = [],
               currentEvent = [], dataBuffer = []\<rparr>
      in case new_request_err env of
           Some e \<Rightarrow> Inl (''failed to create SSE request: '' @ e)
         | None \<Rightarrow>
             (case get_result env of
                Inl e \<Rightarrow> Inl (''failed to connect to SSE endpoint: '' @ e)
              | Inr resp \<Rightarrow>
                  if StatusCode resp \<noteq> 200 then
                    Inl (''unexpected status code '' @ fmt_d (StatusCode resp) @ ''. Body: ''
                         @ take 2048 (Body resp))
                  else if \<not> Contains (ContentType resp) ''text/event-stream'' then
                    Inl (''server did not return an SSE stream (got '' @ ContentType resp
                         @ ''). Response: '' @ take 2048 (Body resp))
                  else if StatusCode resp \<noteq> 200 then
                    Inl (''unexpected status code from SSE: '' @ fmt_d (StatusCode resp))
                  else
                    let c1 = c\<lparr>postReady := True\<rparr>;
                        c2 = c1\<lparr>reading := True\<rparr>
                    in case handshake_select resolve decode env c2 of
                         (PostReady, c3) \<Rightarrow> Inr c3
                       | (Timeout, c3) \<Rightarrow>
                           Inl ''timeout (15s) waiting for 'endpoint' event from remote SSE server''
                       | (CallerDone, c3) \<Rightarrow>
                           Inl ''context cancelled while waiting for SSE endpoint''))"

text \<open>
  \<open>SSEClient.sendRequest\<close>. Beyond \<open>call_env\<close>: whether building the POST request fails,
  and the status and body text of the POST's response.
\<close>

record sse_call_env = call_env +
  post_request_err :: "string option"
  post_status :: int
  post_body :: string

definition sse_meanwhile ::
  "(string \<Rightarrow> string \<Rightarrow> string option) \<Rightarrow> (string \<Rightarrow> JSONRPCMessage option) \<Rightarrow> 'a call_env_scheme
     \<Rightarrow> sse_client \<Rightarrow> sse_client" where
  "sse_meanwhile resolve decode env c =
     (let c1 = (if reading c
                then run_state (SSEClient_readLoop resolve decode (incoming env) (incoming_end env) c)
                else c)
      in if close_called env then cancel c1 else c1)"

definition SSEClient_sendRequest ::
  "(string \<Rightarrow> string \<Rightarrow> string option) \<Rightarrow> (string \<Rightarrow> JSONRPCMessage option) \<Rightarrow> sse_call_env
     \<Rightarrow> string \<Rightarrow> json \<Rightarrow> sse_client \<Rightarrow> (string + JSONRPCMessage) outcome \<times> sse_client" where
  "SSEClient_sendRequest resolve decode env method params c0 =
     (let c = c0\<lparr>nextID := nextID c0 + 1\<rparr>;
          rid = dec_nat (unat (nextID c));
          reqMsg = \<lparr>msg_JSONRPC = ''2.0'', msg_ID = Some rid, msg_Method = method,
                    msg_Params = Some params, msg_Result = None, msg_Error = None\<rparr>;
          c1 = install rid c
      in case post_request_err env of
           Some e \<Rightarrow> (Returns (Inl e), remove rid c1)
         | None \<Rightarrow>
             let c2 = c1\<lparr>posts := posts c1 @ [(postURL c1, reqMsg)]\<rparr>
             in case transport_err env of
                  Some e \<Rightarrow> (Returns (Inl e), remove rid c2)
                | None \<Rightarrow>
                    if post_status env \<noteq> 200 \<and> post_status env \<noteq> 202 then
                      (Returns (Inl (''POST request failed with status: '' @ fmt_d (post_status env)
                                     @ ''. Server says: '' @ post_body env)),
                       remove rid c2)
                    else await env ''sse connection closed'' rid
                           (sse_meanwhile resolve decode env c2))"


section \<open>Properties of the manager and the adapter\<close>


lemma StartAndRegister_failure_cases:
  assumes live: "clients m (cfg_Name cfg) = None"
      and made: "newClient_err env (newClient cfg) = None"
  shows "Initialize env (newClient cfg) = Some e \<Longrightarrow>
           StartAndRegister env Register cfg m =
             (Some (''mcp initialization failed for '' @ cfg_Name cfg @ '': '' @ e), m,
              [EvNew (newClient cfg), EvInitialize (newClient cfg), EvClose (newClient cfg)])"
    and "Initialize env (newClient cfg) = None \<Longrightarrow> ListTools env (newClient cfg) = Inl e \<Longrightarrow>
           StartAndRegister env Register cfg m =
             (Some (''failed to list tools from '' @ cfg_Name cfg @ '': '' @ e), m,
              [EvNew (newClient cfg), EvInitialize (newClient cfg), EvListTools (newClient cfg),
               EvClose (newClient cfg)])"
  using live made by (simp_all add: StartAndRegister_def Let_def)

text \<open>
  Claim C6. When \<open>StartAndRegister\<close> has created a client (the alias was free and the
  constructor succeeded) and \<open>Initialize\<close> or \<open>ListTools\<close> then fails with \<open>e\<close>: an error
  wrapping \<open>e\<close> is returned, the client is closed as the last call made, and the manager is
  left as it was, so the registry holds no adapter of that provider and the client map has
  no entry for it.
\<close>

theorem StartAndRegister_all_or_nothing:
  assumes "clients m (cfg_Name cfg) = None"
      and "newClient_err env (newClient cfg) = None"
      and "Initialize env (newClient cfg) = Some e
           \<or> (Initialize env (newClient cfg) = None \<and> ListTools env (newClient cfg) = Inl e)"
      and "StartAndRegister env Register cfg m = (err, m', evs)"
  shows "(\<exists>pre. err = Some (pre @ e))
         \<and> last evs = EvClose (newClient cfg)
         \<and> count_list evs (EvClose (newClient cfg)) = 1
         \<and> registry m' = registry m
         \<and> clients m' = clients m
         \<and> clients m' (cfg_Name cfg) = None"
proof -
  from assms(3) show ?thesis
  proof
    assume "Initialize env (newClient cfg) = Some e"
    from StartAndRegister_failure_cases(1)[OF assms(1,2) this, of Register] assms(1,4)
    show ?thesis by auto
  next
    assume "Initialize env (newClient cfg) = None \<and> ListTools env (newClient cfg) = Inl e"
    then have i: "Initialize env (newClient cfg) = None"
      and l: "ListTools env (newClient cfg) = Inl e" by simp_all
    from StartAndRegister_failure_cases(2)[OF assms(1,2) i l, of Register] assms(1,4)
    show ?thesis by auto
  qed
qed


theorem StartAndRegister_all_or_nothing_witness:
  "StartAndRegister
     \<lparr>connect_err = (\<lambda>c. None), Initialize = (\<lambda>c. None), ListTools = (\<lambda>c. Inl ''eof'')\<rparr>
     (#)
     \<lparr>cfg_Name = ''fs'', cfg_Type = ''stdio'', cfg_URL = [], cfg_Headers = [],
      cfg_Cmd = ''mcp-fs'', cfg_Args = [], cfg_Env = []\<rparr>
     \<lparr>registry = [], clients = Map.empty\<rparr>
   = (Some ''failed to list tools from fs: eof'',
      \<lparr>registry = [], clients = Map.empty\<rparr>,
      [EvNew (StdioClient ''mcp-fs'' [] []), EvInitialize (StdioClient ''mcp-fs'' [] []),
       EvListTools (StdioClient ''mcp-fs'' [] []), EvClose (StdioClient ''mcp-fs'' [] [])])
   \<and> (\<exists>pre. Some ''failed to list tools from fs: eof'' = Some (pre @ ''eof''))
   \<and> last [EvNew (StdioClient ''mcp-fs'' [] []), EvInitialize (StdioClient ''mcp-fs'' [] []),
       EvListTools (StdioClient ''mcp-fs'' [] []), EvClose (StdioClient ''mcp-fs'' [] [])]
       = EvClose (StdioClient ''mcp-fs'' [] [])"
proof -
  let ?env = "\<lparr>connect_err = (\<lambda>c. None), Initialize = (\<lambda>c. None),
                ListTools = (\<lambda>c. Inl ''eof'')\<rparr>"
  let ?cfg = "\<lparr>cfg_Name = ''fs'', cfg_Type = ''stdio'', cfg_URL = [], cfg_Headers = [],
                cfg_Cmd = ''mcp-fs'', cfg_Args = [], cfg_Env = []\<rparr>"
  let ?m = "\<lparr>registry = [] :: MCPToolAdapter list, clients = Map.empty\<rparr>"
  let ?c = "StdioClient ''mcp-fs'' [] []"
  let ?evs = "[EvNew ?c, EvInitialize ?c, EvListTools ?c, EvClose ?c]"
  have c: "newClient ?cfg = ?c" by (simp add: newClient_def)
  have h1: "clients ?m (cfg_Name ?cfg) = None" by simp
  have h2: "newClient_err ?env (newClient ?cfg) = None" by (simp add: c newClient_err_def)
  have h3: "Initialize ?env (newClient ?cfg) = Some ''eof''
            \<or> (Initialize ?env (newClient ?cfg) = None \<and> ListTools ?env (newClient ?cfg) = Inl ''eof'')"
    by simp
  have h4: "StartAndRegister ?env (#) ?cfg ?m = (Some ''failed to list tools from fs: eof'', ?m, ?evs)"
    by (simp add: StartAndRegister_def c newClient_err_def Let_def)
  from StartAndRegister_all_or_nothing[OF h1 h2 h3 h4] h4 show ?thesis
    by (simp add: c)
qed





section \<open>Properties of the JSON-RPC clients\<close>

lemma await_returns_removed:
  "await env txt rid c = (Returns r, c') \<Longrightarrow> rid \<notin> dom (pending c')"
  by (auto simp: await_def remove_def split: list.splits)

text \<open>
  Claim C5. When a \<open>sendRequest\<close> of the stdio or of the SSE client returns, by whatever
  path, the pending table has no entry for the id of that request. For the stdio client
  the two early returns on a marshalling failure come before the entry is made; there the
  table is as it was, so the id is absent because it was fresh.
\<close>

theorem sendRequest_removes_pending:
  "(\<forall>r c'. StdioClient_sendRequest decode env meth params c0 = (Returns r, c') \<longrightarrow>
       (marshal_params_err env = None \<and> marshal_req_err env = None)
         \<or> next_id c0 \<notin> dom (pending c0) \<longrightarrow>
       next_id c0 \<notin> dom (pending c'))
   \<and> (\<forall>r s'. SSEClient_sendRequest resolve decode senv meth params s0 = (Returns r, s') \<longrightarrow>
       next_id s0 \<notin> dom (pending s'))"
  by (auto simp: StdioClient_sendRequest_def SSEClient_sendRequest_def Let_def next_id_def
        remove_def install_def
      split: option.splits if_splits dest!: await_returns_removed)

theorem sendRequest_removes_pending_witness:
  "fst (StdioClient_sendRequest (\<lambda>l. None)
          \<lparr>marshal_params_err = None, marshal_req_err = None, transport_err = None,
           caller_done = True, caller_err = ''context canceled'', incoming = [],
           incoming_end = StillOpen, close_called = False, pick = 0\<rparr>
          ''tools/list'' (JObj []) NewStdioClient_state)
     = Returns (Inl ''context canceled'')
   \<and> next_id NewStdioClient_state = ''1''
   \<and> ''1'' \<notin> dom (pending (snd (StdioClient_sendRequest (\<lambda>l. None)
          \<lparr>marshal_params_err = None, marshal_req_err = None, transport_err = None,
           caller_done = True, caller_err = ''context canceled'', incoming = [],
           incoming_end = StillOpen, close_called = False, pick = 0\<rparr>
          ''tools/list'' (JObj []) NewStdioClient_state)))"
proof -
  let ?env = "\<lparr>marshal_params_err = None, marshal_req_err = None, transport_err = None,
           caller_done = True, caller_err = ''context canceled'', incoming = [],
           incoming_end = StillOpen, close_called = False, pick = 0\<rparr>"
  let ?call = "StdioClient_sendRequest (\<lambda>l. None) ?env ''tools/list'' (JObj []) NewStdioClient_state"
  have n: "next_id NewStdioClient_state = ''1''"
    by (simp add: next_id_def NewStdioClient_state_def dec_nat.simps digit_char_def)
  have f: "fst ?call = Returns (Inl ''context canceled'')"
    by (simp add: StdioClient_sendRequest_def NewStdioClient_state_def Let_def install_def
        await_def ready_cases_def stdio_meanwhile_def run_state_def select_result_def
        dec_nat.simps digit_char_def)
  then have e: "?call = (Returns (Inl ''context canceled''), snd ?call)"
    by (metis prod.collapse)
  have m: "(marshal_params_err ?env = None \<and> marshal_req_err ?env = None)
           \<or> next_id NewStdioClient_state \<notin> dom (pending NewStdioClient_state)" by simp
  from sendRequest_removes_pending[of "\<lambda>l. None" ?env "''tools/list''" "JObj []" NewStdioClient_state]
  have "next_id NewStdioClient_state \<notin> dom (pending (snd ?call))"
    using e m by blast
  with n f show ?thesis by simp
qed






lemma dec_nat_one: "dec_nat (Suc 0) = ''1''"
  by (simp add: dec_nat.simps digit_char_def)

lemma fmt_d_405: "fmt_d 405 = ''405''"
  by (simp add: fmt_d_def dec_nat.simps digit_char_def)

lemma handshake_select_entry:
  "postReady c \<Longrightarrow> handshake_select resolve decode env c
     = ((handshake_ready (ctx_done_at_select env) c)
          ! (handshake_pick env mod length (handshake_ready (ctx_done_at_select env) c)), c)"
  by (simp add: handshake_select_def handshake_ready_def)

lemma handshake_select_entry_cases:
  "postReady c \<Longrightarrow> fst (handshake_select resolve decode env c) \<noteq> Timeout
     \<and> snd (handshake_select resolve decode env c) = c"
  by (auto simp: handshake_select_entry handshake_ready_def nth_Cons')

text \<open>
  Claim C2, on the code. \<open>NewSSEClient\<close> closes \<open>postReady\<close> itself before it starts the
  reader, so the \<open>select\<close> finds that case ready when it is reached: the timeout error
  is never returned, whatever the server sends. For a server that answers the GET with
  status 200 and an event stream, sends one comment line and never an \<open>endpoint\<close>
  event, the constructor returns the client, with the SSE URL as its POST URL.
\<close>

theorem NewSSEClient_without_endpoint:
  "NewSSEClient resolve decode env u
     \<noteq> Inl ''timeout (15s) waiting for 'endpoint' event from remote SSE server''
   \<and> NewSSEClient (\<lambda>base ref. Some (''http://h'' @ ref)) (\<lambda>l. None)
       \<lparr>new_request_err = None,
        get_result = Inr \<lparr>StatusCode = 200, ContentType = ''text/event-stream'', Body = []\<rparr>,
        ctx_done_at_select = False, first_lines = ['': ping''], first_end = StillOpen,
        ctx_done_while_waiting = False, handshake_pick = 0\<rparr>
       ''http://h/sse''
     = Inr \<lparr>nextID = 0, pending = Map.empty, ctx_done = False, reading = True,
            sseURL = ''http://h/sse'', postURL = ''http://h/sse'', postReady = True,
            posts = [], currentEvent = [], dataBuffer = []\<rparr>"
proof
  let ?c = "\<lparr>nextID = 0, pending = Map.empty, ctx_done = False, reading = True,
            sseURL = u, postURL = u, postReady = True,
            posts = [], currentEvent = [], dataBuffer = []\<rparr>"
  have "postReady ?c" by simp
  from handshake_select_entry_cases[OF this, of resolve decode env]
  show "NewSSEClient resolve decode env u
     \<noteq> Inl ''timeout (15s) waiting for 'endpoint' event from remote SSE server''"
    by (auto simp: NewSSEClient_def Let_def split: option.splits sum.splits prod.splits
        handshake_case.splits)
next
  show "NewSSEClient (\<lambda>base ref. Some (''http://h'' @ ref)) (\<lambda>l. None)
       \<lparr>new_request_err = None,
        get_result = Inr \<lparr>StatusCode = 200, ContentType = ''text/event-stream'', Body = []\<rparr>,
        ctx_done_at_select = False, first_lines = ['': ping''], first_end = StillOpen,
        ctx_done_while_waiting = False, handshake_pick = 0\<rparr>
       ''http://h/sse''
     = Inr \<lparr>nextID = 0, pending = Map.empty, ctx_done = False, reading = True,
            sseURL = ''http://h/sse'', postURL = ''http://h/sse'', postReady = True,
            posts = [], currentEvent = [], dataBuffer = []\<rparr>"
    by (simp add: NewSSEClient_def Let_def HasPrefix_def handshake_select_def handshake_ready_def)
qed

text \<open>
  Claim C1, on the code. A client that \<open>NewSSEClient\<close> returns has handled no line of
  the stream: its POST URL is still the SSE URL. A \<open>sendRequest\<close> on it does not wait for
  the \<open>endpoint\<close> event: on a server that announces \<open>/rpc\<close> only afterwards, the
  \<open>initialize\<close> request is POSTed to the SSE URL, and a server that refuses a POST there
  makes the call fail.
\<close>

theorem SSE_request_before_endpoint:
  "(case NewSSEClient resolve decode env u of
      Inl e \<Rightarrow> True
    | Inr c \<Rightarrow> postURL c = u \<and> postReady c \<and> posts c = [] \<and> currentEvent c = [])
   \<and> posts (snd (SSEClient_sendRequest (\<lambda>base ref. Some (''http://h'' @ ref)) (\<lambda>l. None)
        \<lparr>marshal_params_err = None, marshal_req_err = None, transport_err = None,
         caller_done = False, caller_err = [],
         incoming = [''event: endpoint'', ''data: /rpc'', ''''],
         incoming_end = StillOpen, close_called = False, pick = 0,
         post_request_err = None, post_status = 405, post_body = []\<rparr>
        ''initialize'' (JObj [])
        \<lparr>nextID = 0, pending = Map.empty, ctx_done = False, reading = True,
         sseURL = ''http://h/sse'', postURL = ''http://h/sse'', postReady = True,
         posts = [], currentEvent = [], dataBuffer = []\<rparr>))
     = [(''http://h/sse'',
         \<lparr>msg_JSONRPC = ''2.0'', msg_ID = Some ''1'', msg_Method = ''initialize'',
          msg_Params = Some (JObj []), msg_Result = None, msg_Error = None\<rparr>)]
   \<and> fst (SSEClient_sendRequest (\<lambda>base ref. Some (''http://h'' @ ref)) (\<lambda>l. None)
        \<lparr>marshal_params_err = None, marshal_req_err = None, transport_err = None,
         caller_done = False, caller_err = [],
         incoming = [''event: endpoint'', ''data: /rpc'', ''''],
         incoming_end = StillOpen, close_called = False, pick = 0,
         post_request_err = None, post_status = 405, post_body = []\<rparr>
        ''initialize'' (JObj [])
        \<lparr>nextID = 0, pending = Map.empty, ctx_done = False, reading = True,
         sseURL = ''http://h/sse'', postURL = ''http://h/sse'', postReady = True,
         posts = [], currentEvent = [], dataBuffer = []\<rparr>)
     = Returns (Inl ''POST request failed with status: 405. Server says: '')"
proof -
  let ?c = "\<lparr>nextID = 0, pending = Map.empty, ctx_done = False, reading = True,
            sseURL = u, postURL = u, postReady = True,
            posts = [], currentEvent = [], dataBuffer = []\<rparr>"
  have "postReady ?c" by simp
  from handshake_select_entry_cases[OF this, of resolve decode env]
  have 1: "(case NewSSEClient resolve decode env u of
      Inl e \<Rightarrow> True
    | Inr c \<Rightarrow> postURL c = u \<and> postReady c \<and> posts c = [] \<and> currentEvent c = [])"
    by (auto simp: NewSSEClient_def Let_def split: option.splits sum.splits prod.splits
        handshake_case.splits)
  have 2: "SSEClient_sendRequest (\<lambda>base ref. Some (''http://h'' @ ref)) (\<lambda>l. None)
        \<lparr>marshal_params_err = None, marshal_req_err = None, transport_err = None,
         caller_done = False, caller_err = [],
         incoming = [''event: endpoint'', ''data: /rpc'', ''''],
         incoming_end = StillOpen, close_called = False, pick = 0,
         post_request_err = None, post_status = 405, post_body = []\<rparr>
        ''initialize'' (JObj [])
        \<lparr>nextID = 0, pending = Map.empty, ctx_done = False, reading = True,
         sseURL = ''http://h/sse'', postURL = ''http://h/sse'', postReady = True,
         posts = [], currentEvent = [], dataBuffer = []\<rparr>
     = (Returns (Inl ''POST request failed with status: 405. Server says: ''),
        \<lparr>nextID = 1, pending = Map.empty, ctx_done = False, reading = True,
         sseURL = ''http://h/sse'', postURL = ''http://h/sse'', postReady = True,
         posts = [(''http://h/sse'',
                   \<lparr>msg_JSONRPC = ''2.0'', msg_ID = Some ''1'', msg_Method = ''initialize'',
                    msg_Params = Some (JObj []), msg_Result = None, msg_Error = None\<rparr>)],
         currentEvent = [], dataBuffer = []\<rparr>)"
    by (simp add: SSEClient_sendRequest_def Let_def install_def remove_def dec_nat_one fmt_d_405)
  from 1 show ?thesis
    unfolding 2 by simp
qed

end
